theory Spec2Isabelle
  imports Main
begin

section \<open>Data model (main.go, lines 18-40)\<close>

text \<open>
  The Go structs become records with the Go field names. Go's \<open>int\<close> identifier is only
  ever stored, used as a map key and compared for equality, never computed with, so it is
  an \<open>int\<close> here. A Go string is a byte sequence: \<open>string\<close>. A slice of teams is a list;
  the only operations the program applies to such a slice are \<open>range\<close>, \<open>len\<close> and
  \<open>append\<close>, which do not tell a nil slice from an empty one.
\<close>

record location =
  City :: string
  Region :: string
  Country :: string
  Postcode :: string

record Team =
  ID :: int
  Number :: string
  TeamName :: string
  RobotName :: string
  Organization :: string
  Location :: location
  Registered :: bool

record meta =
  Total :: int

record APIResponse =
  Meta :: meta
  Data :: "Team list"

section \<open>The diff: findMissingTeams (lines 118-131)\<close>

text \<open>
  First loop (lines 119-122): \<open>currMap[team.ID] = team\<close> for each team of the comparison
  slice, starting from the empty map.
\<close>

fun build_currMap :: "(int \<rightharpoonup> Team) \<Rightarrow> Team list \<Rightarrow> (int \<rightharpoonup> Team)" where
  "build_currMap currMap [] = currMap"
| "build_currMap currMap (team # rest) = build_currMap (currMap(ID team \<mapsto> team)) rest"

text \<open>
  Second loop (lines 124-129): each team of the previous slice whose identifier has no
  entry in \<open>currMap\<close> is appended to \<open>missingTeams\<close>.
\<close>

fun collect_missing :: "(int \<rightharpoonup> Team) \<Rightarrow> Team list \<Rightarrow> Team list \<Rightarrow> Team list" where
  "collect_missing currMap missingTeams [] = missingTeams"
| "collect_missing currMap missingTeams (team # rest) =
     (case currMap (ID team) of
        None \<Rightarrow> collect_missing currMap (missingTeams @ [team]) rest
      | Some _ \<Rightarrow> collect_missing currMap missingTeams rest)"

definition findMissingTeams :: "Team list \<Rightarrow> Team list \<Rightarrow> Team list" where
  "findMissingTeams prevTeams currTeams =
     collect_missing (build_currMap Map.empty currTeams) [] prevTeams"

text \<open>Sample teams used at concrete inputs.\<close>

definition mk_team :: "int \<Rightarrow> string \<Rightarrow> string \<Rightarrow> Team" where
  "mk_team i num org =
     \<lparr>ID = i, Number = num, TeamName = [], RobotName = [], Organization = org,
      Location = \<lparr>City = [], Region = [], Country = [], Postcode = []\<rparr>,
      Registered = True\<rparr>"

section \<open>Errors, responses and the outside world\<close>

text \<open>
  Every Go \<open>error\<close> the program can see is a value of \<open>error\<close>. \<open>ErrNotExist\<close> is the
  error of \<open>ioutil.ReadFile\<close> on a file that does not exist, the only one for which
  \<open>os.IsNotExist\<close> holds; \<open>ErrURL\<close> is the error of \<open>http.NewRequest\<close>; \<open>ErrStatus\<close> is the
  error made by \<open>fmt.Errorf\<close> on line 158.
\<close>

datatype error =
    ErrNotExist
  | ErrIO string
  | ErrJSON string
  | ErrURL string
  | ErrHTTP string
  | ErrStatus int

fun os_IsNotExist :: "error \<Rightarrow> bool" where
  "os_IsNotExist ErrNotExist = True"
| "os_IsNotExist _ = False"

record http_response =
  StatusCode :: int
  Body :: string

text \<open>
  The collaborators outside the repository are parameters of the model, gathered in a
  \<open>world\<close>. The network and the file system may answer differently each time they are
  asked: their answers depend on \<open>clock\<close>, the number of external calls made so far.
  \<^item> \<open>new_request url\<close>: \<open>http.NewRequest\<close> for a GET of \<open>url\<close>; the message of its error
    when it rejects the address, \<open>None\<close> when it builds the request. It makes no call to
    the outside and depends on the address alone.
  \<^item> \<open>http_get n url token\<close>: \<open>client.Do\<close> on the request, with the bearer token; \<open>Inl\<close>
    when the transport fails. A response with any status code is \<open>Inr\<close>, as in
    \<open>net/http\<close>.
  \<^item> \<open>http_post n url payload\<close>: \<open>http.Post\<close>.
  \<^item> \<open>read_error n file\<close>, \<open>write_error n file\<close>: a failure of the file system other than
    the file not existing, with its message.
  \<^item> \<open>write_leaves n file\<close>: what a failed \<open>ioutil.WriteFile\<close> leaves behind. The file is
    opened for writing and truncated before the bytes are written: \<open>None\<close> when the
    failure comes before that (the file is as it was), \<open>Some k\<close> when the file was
    truncated and holds the first \<open>k\<close> of the bytes to write.
  \<^item> \<open>decode_teams\<close>, \<open>decode_name\<close>: \<open>json.NewDecoder(body).Decode\<close> into an
    \<open>APIResponse\<close>, respectively into a struct with the single field \<open>name\<close>.
  \<^item> \<open>unmarshal_teams\<close>, \<open>marshal_teams\<close>: \<open>json.Unmarshal\<close> and \<open>json.MarshalIndent\<close> on a
    snapshot file's bytes; \<open>marshal_payload\<close>: \<open>json.Marshal\<close> of the one-field object
    \<open>{text: message}\<close>.
\<close>

record world =
  new_request :: "string \<Rightarrow> string option"
  http_get :: "nat \<Rightarrow> string \<Rightarrow> string \<Rightarrow> error + http_response"
  http_post :: "nat \<Rightarrow> string \<Rightarrow> string \<Rightarrow> error + http_response"
  read_error :: "nat \<Rightarrow> string \<Rightarrow> string option"
  write_error :: "nat \<Rightarrow> string \<Rightarrow> string option"
  write_leaves :: "nat \<Rightarrow> string \<Rightarrow> nat option"
  decode_teams :: "string \<Rightarrow> error + APIResponse"
  decode_name :: "string \<Rightarrow> error + string"
  unmarshal_teams :: "string \<Rightarrow> error + APIResponse"
  marshal_teams :: "APIResponse \<Rightarrow> error + string"
  marshal_payload :: "string \<Rightarrow> error + string"

text \<open>
  What the program does to the outside is recorded, in order, in a trace: its lines on
  standard output (\<open>fmt.Printf\<close>), its log lines (\<open>log.Printf\<close>, with the event ID and the
  error they print) and its external calls: \<open>Http_Get\<close> is a call of \<open>client.Do\<close>,
  \<open>Http_Post\<close> a call of \<open>http.Post\<close>, \<open>File_Read\<close> a call of \<open>ioutil.ReadFile\<close> and
  \<open>File_Write\<close> a call of \<open>ioutil.WriteFile\<close>.
\<close>

datatype event =
    Stdout_Processing string
  | Stdout_NoPrevious string
  | Log_FetchError string error
  | Log_ReadError string error
  | Log_SaveError string error
  | Log_NameError string error
  | Log_SlackError string error
  | Http_Get string string
  | Http_Post string string
  | File_Read string
  | File_Write string string

record state =
  files :: "string \<rightharpoonup> string"
  trace :: "event list"
  clock :: nat

definition emit :: "event \<Rightarrow> state \<Rightarrow> state" where
  "emit ev st = st\<lparr>trace := trace st @ [ev]\<rparr>"

definition tick :: "state \<Rightarrow> state" where
  "tick st = st\<lparr>clock := Suc (clock st)\<rparr>"

section \<open>The collaborators' wrappers (lines 43-115)\<close>

definition teams_url :: "string \<Rightarrow> string" where
  "teams_url eventID =
     ''https://www.robotevents.com/api/v2/events/'' @ eventID @ ''/teams?&per_page=250&page=1''"

definition event_url :: "string \<Rightarrow> string" where
  "event_url eventID = ''https://www.robotevents.com/api/v2/events/'' @ eventID"

definition snapshot_file :: "string \<Rightarrow> string" where
  "snapshot_file eventID = eventID @ ''_teams.json''"

text \<open>
  fetchTeams (lines 43-64). When \<open>http.NewRequest\<close> fails the function returns before any
  call to the outside (lines 45-48). The response's status code is not read.
\<close>

definition fetchTeams ::
  "world \<Rightarrow> string \<Rightarrow> string \<Rightarrow> state \<Rightarrow> (error + APIResponse) \<times> state" where
  "fetchTeams w token eventID st =
     (let url = teams_url eventID
      in case new_request w url of
           Some msg \<Rightarrow> (Inl (ErrURL msg), st)
         | None \<Rightarrow>
             (let st' = tick (emit (Http_Get url token) st)
              in case http_get w (clock st) url token of
                   Inl err \<Rightarrow> (Inl err, st')
                 | Inr resp \<Rightarrow>
                     (case decode_teams w (Body resp) of
                        Inl err \<Rightarrow> (Inl err, st')
                      | Inr result \<Rightarrow> (Inr result, st'))))"

text \<open>fetchEventName (lines 66-89).\<close>

definition fetchEventName ::
  "world \<Rightarrow> string \<Rightarrow> string \<Rightarrow> state \<Rightarrow> (error + string) \<times> state" where
  "fetchEventName w token eventID st =
     (let url = event_url eventID
      in case new_request w url of
           Some msg \<Rightarrow> (Inl (ErrURL msg), st)
         | None \<Rightarrow>
             (let st' = tick (emit (Http_Get url token) st)
              in case http_get w (clock st) url token of
                   Inl err \<Rightarrow> (Inl err, st')
                 | Inr resp \<Rightarrow>
                     (case decode_name w (Body resp) of
                        Inl err \<Rightarrow> (Inl err, st')
                      | Inr name \<Rightarrow> (Inr name, st'))))"

text \<open>
  \<open>ioutil.ReadFile\<close>: a file-system failure, else the not-exist error for an absent file,
  else the bytes.
\<close>

definition ReadFile :: "world \<Rightarrow> string \<Rightarrow> state \<Rightarrow> error + string" where
  "ReadFile w fileName st =
     (case read_error w (clock st) fileName of
        Some msg \<Rightarrow> Inl (ErrIO msg)
      | None \<Rightarrow>
          (case files st fileName of
             None \<Rightarrow> Inl ErrNotExist
           | Some bytes \<Rightarrow> Inr bytes))"

text \<open>loadPreviousTeams (lines 92-104).\<close>

definition loadPreviousTeams ::
  "world \<Rightarrow> string \<Rightarrow> state \<Rightarrow> (error + APIResponse) \<times> state" where
  "loadPreviousTeams w eventID st =
     (let fileName = snapshot_file eventID;
          st' = tick (emit (File_Read fileName) st)
      in case ReadFile w fileName st of
           Inl err \<Rightarrow> (Inl err, st')
         | Inr bytes \<Rightarrow>
             (case unmarshal_teams w bytes of
                Inl err \<Rightarrow> (Inl err, st')
              | Inr prevTeams \<Rightarrow> (Inr prevTeams, st')))"

text \<open>
  saveTeams (lines 107-115). A write that succeeds replaces the file's bytes; a write that
  fails leaves the file as it was or truncated, as \<open>write_leaves\<close> says.
\<close>

definition saveTeams ::
  "world \<Rightarrow> string \<Rightarrow> APIResponse \<Rightarrow> state \<Rightarrow> error option \<times> state" where
  "saveTeams w eventID teams st =
     (let fileName = snapshot_file eventID
      in case marshal_teams w teams of
           Inl err \<Rightarrow> (Some err, st)
         | Inr bytes \<Rightarrow>
             (let st' = tick (emit (File_Write fileName bytes) st)
              in case write_error w (clock st) fileName of
                   Some msg \<Rightarrow>
                     (case write_leaves w (clock st) fileName of
                        None \<Rightarrow> (Some (ErrIO msg), st')
                      | Some k \<Rightarrow>
                          (Some (ErrIO msg),
                           st'\<lparr>files := (files st')(fileName \<mapsto> take k bytes)\<rparr>))
                 | None \<Rightarrow> (None, st'\<lparr>files := (files st')(fileName \<mapsto> bytes)\<rparr>)))"

section \<open>The notification: sendSlackMessage (lines 134-161)\<close>

text \<open>The loop of lines 140-142: one \<open>Sprintf\<close> line per team, appended to the message.\<close>

fun append_team_lines :: "string \<Rightarrow> Team list \<Rightarrow> string" where
  "append_team_lines message [] = message"
| "append_team_lines message (team # rest) =
     append_team_lines
       (message @ ''`'' @ Number team @ ''` - `'' @ Organization team @ ''`'' @ [CHR 0x0A])
       rest"

text \<open>The message of lines 135-143.\<close>

definition slack_text :: "string \<Rightarrow> Team list \<Rightarrow> string" where
  "slack_text eventName missingTeams =
     (if length missingTeams = 0
      then ''No teams are missing for event '' @ eventName @ ''.''
      else append_team_lines
             (''*Missing teams for* `'' @ eventName @ ''`:'' @ [CHR 0x0A, CHR 0x0A])
             missingTeams)"

definition sendSlackMessage ::
  "world \<Rightarrow> string \<Rightarrow> string \<Rightarrow> Team list \<Rightarrow> state \<Rightarrow> error option \<times> state" where
  "sendSlackMessage w webhookURL eventName missingTeams st =
     (let message = slack_text eventName missingTeams
      in case marshal_payload w message of
           Inl err \<Rightarrow> (Some err, st)
         | Inr payloadBytes \<Rightarrow>
             (let st' = tick (emit (Http_Post webhookURL payloadBytes) st)
              in case http_post w (clock st) webhookURL payloadBytes of
                   Inl err \<Rightarrow> (Some err, st')
                 | Inr resp \<Rightarrow>
                     if StatusCode resp \<noteq> 200
                     then (Some (ErrStatus (StatusCode resp)), st')
                     else (None, st')))"

section \<open>The orchestration loop: main (lines 163-218)\<close>

text \<open>
  The diff as line 202 computes it: \<open>findMissingTeams(prevTeams.Data, []Team{})\<close>. The
  fetched snapshot is in scope there and is not passed.
\<close>

definition line_202_missingTeams :: "APIResponse \<Rightarrow> APIResponse \<Rightarrow> Team list" where
  "line_202_missingTeams prevTeams currTeams = findMissingTeams (Data prevTeams) []"

text \<open>Lines 200-216, with \<open>prevTeams = None\<close> for the nil pointer.\<close>

definition check_missing ::
  "world \<Rightarrow> string \<Rightarrow> string \<Rightarrow> string \<Rightarrow> APIResponse option \<Rightarrow> APIResponse \<Rightarrow> state \<Rightarrow> state"
  where
  "check_missing w token webhookURL eventID prevTeams currTeams st =
     (case prevTeams of
        None \<Rightarrow> emit (Stdout_NoPrevious eventID) st
      | Some prev \<Rightarrow>
          (let missingTeams = line_202_missingTeams prev currTeams
           in if length missingTeams > 0
              then (case fetchEventName w token eventID st of
                      (Inl err, st1) \<Rightarrow> emit (Log_NameError eventID err) st1
                    | (Inr eventName, st1) \<Rightarrow>
                        (case sendSlackMessage w webhookURL eventName missingTeams st1 of
                           (Some err, st2) \<Rightarrow> emit (Log_SlackError eventID err) st2
                         | (None, st2) \<Rightarrow> st2))
              else st))"

text \<open>Lines 194-216: save the fetched snapshot, then check for missing teams.\<close>

definition save_and_check ::
  "world \<Rightarrow> string \<Rightarrow> string \<Rightarrow> string \<Rightarrow> APIResponse option \<Rightarrow> APIResponse \<Rightarrow> state \<Rightarrow> state"
  where
  "save_and_check w token webhookURL eventID prevTeams currTeams st =
     (case saveTeams w eventID currTeams st of
        (Some err, st1) \<Rightarrow> emit (Log_SaveError eventID err) st1
      | (None, st1) \<Rightarrow> check_missing w token webhookURL eventID prevTeams currTeams st1)"

text \<open>
  One iteration of the loop (lines 178-216). Each \<open>continue\<close> is a branch that returns the
  state reached so far; \<open>loadPreviousTeams\<close> returns a nil pointer with every error.
\<close>

definition process_event ::
  "world \<Rightarrow> string \<Rightarrow> string \<Rightarrow> string \<Rightarrow> state \<Rightarrow> state" where
  "process_event w token webhookURL eventID st =
     (case fetchTeams w token eventID (emit (Stdout_Processing eventID) st) of
        (Inl err, st1) \<Rightarrow> emit (Log_FetchError eventID err) st1
      | (Inr currTeams, st1) \<Rightarrow>
          (case loadPreviousTeams w eventID st1 of
             (Inl err, st2) \<Rightarrow>
               if \<not> os_IsNotExist err
               then emit (Log_ReadError eventID err) st2
               else save_and_check w token webhookURL eventID None currTeams st2
           | (Inr prevTeams, st2) \<Rightarrow>
               save_and_check w token webhookURL eventID (Some prevTeams) currTeams st2))"

fun main_loop :: "world \<Rightarrow> string \<Rightarrow> string \<Rightarrow> string list \<Rightarrow> state \<Rightarrow> state" where
  "main_loop w token webhookURL [] st = st"
| "main_loop w token webhookURL (eventID # rest) st =
     main_loop w token webhookURL rest (process_event w token webhookURL eventID st)"

text \<open>
  \<open>strings.Split(s, sep)\<close> for a one-byte separator: the fields between the occurrences of
  \<open>sep\<close>; a string without \<open>sep\<close>, the empty string included, is one field.
\<close>

fun strings_Split :: "string \<Rightarrow> char \<Rightarrow> string list" where
  "strings_Split [] sep = [[]]"
| "strings_Split (c # cs) sep =
     (if c = sep then [] # strings_Split cs sep
      else (case strings_Split cs sep of
              [] \<Rightarrow> [[c]]
            | part # parts \<Rightarrow> (c # part) # parts))"

text \<open>
  main: \<open>os.Getenv\<close> is the function \<open>getenv\<close> (the empty string for an unset variable);
  \<open>log.Fatal\<close> ends the run with its message.
\<close>

datatype run = Fatal string | Finished state

definition main :: "world \<Rightarrow> (string \<Rightarrow> string) \<Rightarrow> state \<Rightarrow> run" where
  "main w getenv st =
     (let token = getenv ''API_TOKEN''
      in if token = []
         then Fatal ''API_TOKEN environment variable is not set''
         else (let webhookURL = getenv ''SLACK_WEBHOOK_URL''
               in if webhookURL = []
                  then Fatal ''SLACK_WEBHOOK_URL environment variable is not set''
                  else (let eventIDs = strings_Split (getenv ''EVENT_IDS'') (CHR '','')
                        in Finished (main_loop w token webhookURL eventIDs st))))"


section \<open>A sample world\<close>

text \<open>
  Concrete inputs for the theorems below. No request can be built for the event ID \<open>%zz\<close>
  (not a valid escape in an address). The roster endpoint fails to answer for event
  \<open>123\<close>, answers 404 with an empty JSON object for event \<open>404\<close>, answers 500 with a body
  that is not JSON for event \<open>500\<close>, and answers with the one-team roster \<open>[A]\<close> for every
  other event. The snapshot file of event \<open>456\<close> cannot be read and the snapshot file of
  event \<open>789\<close> cannot be written (the failed write leaves it empty). The bytes \<open>[A]\<close> and \<open>[A,B]\<close> stand for the JSON text of the
  rosters with team \<open>A\<close>, respectively teams \<open>A\<close> and \<open>B\<close>; the decoder maps the empty JSON
  object to the zero-valued response, as \<open>encoding/json\<close> does for a struct.
\<close>

definition team_A :: Team where
  "team_A = mk_team 1 ''A'' ''Alpha High''"

definition team_B :: Team where
  "team_B = mk_team 2 ''B'' ''Beta Club''"

definition snapshot_of :: "Team list \<Rightarrow> APIResponse" where
  "snapshot_of teams = \<lparr>Meta = \<lparr>Total = int (length teams)\<rparr>, Data = teams\<rparr>"

definition sample_decode :: "string \<Rightarrow> error + APIResponse" where
  "sample_decode bytes =
     (if bytes = ''{}'' then Inr \<lparr>Meta = \<lparr>Total = 0\<rparr>, Data = []\<rparr>
      else if bytes = ''[A]'' then Inr (snapshot_of [team_A])
      else if bytes = ''[A,B]'' then Inr (snapshot_of [team_A, team_B])
      else Inl (ErrJSON ''invalid character''))"

definition sample_marshal :: "APIResponse \<Rightarrow> error + string" where
  "sample_marshal teams =
     Inr (if map Number (Data teams) = [''A''] then ''[A]''
          else if map Number (Data teams) = [''A'', ''B''] then ''[A,B]''
          else ''{}'')"

definition sample_world :: world where
  "sample_world =
     \<lparr>new_request = (\<lambda>url.
         if url = teams_url ''%zz'' then Some ''invalid URL escape'' else None),
      http_get = (\<lambda>n url token.
         if url = teams_url ''123'' then Inl (ErrHTTP ''timeout'')
         else if url = teams_url ''404'' then Inr \<lparr>StatusCode = 404, Body = ''{}''\<rparr>
         else if url = teams_url ''500'' then Inr \<lparr>StatusCode = 500, Body = ''<html>''\<rparr>
         else if url = event_url ''42'' then Inr \<lparr>StatusCode = 200, Body = ''name''\<rparr>
         else Inr \<lparr>StatusCode = 200, Body = ''[A]''\<rparr>),
      http_post = (\<lambda>n url payload. Inr \<lparr>StatusCode = 200, Body = ''ok''\<rparr>),
      read_error = (\<lambda>n file.
         if file = snapshot_file ''456'' then Some ''permission denied'' else None),
      write_error = (\<lambda>n file.
         if file = snapshot_file ''789'' then Some ''disk full'' else None),
      write_leaves = (\<lambda>n file. Some 0),
      decode_teams = sample_decode,
      decode_name = (\<lambda>bytes.
         if bytes = ''name'' then Inr ''Worlds'' else Inl (ErrJSON ''invalid character'')),
      unmarshal_teams = sample_decode,
      marshal_teams = sample_marshal,
      marshal_payload = (\<lambda>message. Inr message)\<rparr>"

text \<open>A first run (no snapshot file), and a later run with the roster \<open>[A,B]\<close> saved for event 42.\<close>

definition first_run :: state where
  "first_run = \<lparr>files = Map.empty, trace = [], clock = 0\<rparr>"

definition second_run :: state where
  "second_run = \<lparr>files = [snapshot_file ''42'' \<mapsto> ''[A,B]''], trace = [], clock = 0\<rparr>"

text \<open>An environment with the token and the webhook address set and \<open>EVENT_IDS\<close> unset.\<close>

definition env_without_ids :: "string \<Rightarrow> string" where
  "env_without_ids name =
     (if name = ''API_TOKEN'' then ''tok''
      else if name = ''SLACK_WEBHOOK_URL'' then ''hook''
      else [])"

section \<open>Properties of the diff\<close>

lemma build_currMap_lookup:
  "build_currMap m xs k =
     (case filter (\<lambda>t. ID t = k) xs of [] \<Rightarrow> m k | t # ts \<Rightarrow> Some (last (t # ts)))"
proof (induction xs arbitrary: m)
  case Nil
  show ?case by simp
next
  case (Cons x xs)
  show ?case
  proof (cases "ID x = k")
    case True
    then show ?thesis
      by (cases "filter (\<lambda>t. ID t = k) xs") (simp_all add: Cons.IH)
  next
    case False
    then show ?thesis
      by (simp add: Cons.IH split: list.split)
  qed
qed

lemma build_currMap_None:
  "build_currMap Map.empty xs k = None \<longleftrightarrow> k \<notin> ID ` set xs"
proof -
  have "filter (\<lambda>t. ID t = k) xs = [] \<longleftrightarrow> k \<notin> ID ` set xs"
    by (auto simp: filter_empty_conv)
  then show ?thesis
    by (cases "filter (\<lambda>t. ID t = k) xs") (simp_all add: build_currMap_lookup)
qed

lemma collect_missing_filter:
  "collect_missing m acc xs = acc @ filter (\<lambda>t. m (ID t) = None) xs"
  by (induction xs arbitrary: acc) (auto split: option.split)

lemma findMissingTeams_filter:
  "findMissingTeams previous current = filter (\<lambda>t. ID t \<notin> ID ` set current) previous"
  by (simp add: findMissingTeams_def collect_missing_filter build_currMap_None)

text \<open>
  C2: for every pair of sequences, \<open>findMissingTeams previous current\<close> is exactly the
  subsequence of \<open>previous\<close> made of the entities whose identifier is the identifier of no
  entity of \<open>current\<close>; \<open>filter\<close> keeps the relative order of \<open>previous\<close>.
\<close>

theorem C2_findMissingTeams_exact:
  "findMissingTeams previous current =
     filter (\<lambda>team. ID team \<notin> ID ` set current) previous"
  by (rule findMissingTeams_filter)

text \<open>
  C8: for every non-empty sequence \<open>X\<close>, \<open>findMissingTeams X [] = X\<close>: against an empty
  comparison set the whole previous snapshot is returned, unchanged and in order.
\<close>

theorem C8_empty_comparison_set:
  "X \<noteq> [] \<Longrightarrow> findMissingTeams X [] = X"
  by (simp add: findMissingTeams_filter)

theorem C8_empty_comparison_set_witness:
  "[mk_team 1 ''A'' ''x'', mk_team 2 ''B'' ''y''] \<noteq> [] \<and>
   findMissingTeams [mk_team 1 ''A'' ''x'', mk_team 2 ''B'' ''y''] [] =
     [mk_team 1 ''A'' ''x'', mk_team 2 ''B'' ''y'']"
  using C8_empty_comparison_set [of "[mk_team 1 ''A'' ''x'', mk_team 2 ''B'' ''y'']"]
  by simp

text \<open>
  C9: the lookup built from the comparison set maps an identifier to the last entity of
  the comparison set that carries it (and to nothing when no entity carries it), also when
  several entities share the identifier; and an entity of the previous sequence is left
  out of the result if and only if its identifier occurs somewhere in the comparison set.
\<close>

theorem C9_duplicates_in_comparison_set:
  "build_currMap Map.empty current k =
     (case filter (\<lambda>t. ID t = k) current of [] \<Rightarrow> None | t # ts \<Rightarrow> Some (last (t # ts)))
   \<and> (team \<in> set previous \<longrightarrow>
        (team \<notin> set (findMissingTeams previous current) \<longleftrightarrow> ID team \<in> ID ` set current))"
  by (simp add: build_currMap_lookup findMissingTeams_filter)

theorem C9_duplicates_in_comparison_set_witness:
  "build_currMap Map.empty [mk_team 1 ''A'' ''x'', mk_team 1 ''A2'' ''z''] 1 =
     Some (mk_team 1 ''A2'' ''z'')
   \<and> mk_team 1 ''A'' ''x'' \<in> set [mk_team 1 ''A'' ''x'', mk_team 2 ''B'' ''y'']
   \<and> mk_team 1 ''A'' ''x'' \<notin>
       set (findMissingTeams [mk_team 1 ''A'' ''x'', mk_team 2 ''B'' ''y'']
              [mk_team 1 ''A'' ''x'', mk_team 1 ''A2'' ''z''])
   \<and> ID (mk_team 1 ''A'' ''x'') \<in> ID ` set [mk_team 1 ''A'' ''x'', mk_team 1 ''A2'' ''z'']"
  using C9_duplicates_in_comparison_set
    [of "[mk_team 1 ''A'' ''x'', mk_team 1 ''A2'' ''z'']" 1 "mk_team 1 ''A'' ''x''"
        "[mk_team 1 ''A'' ''x'', mk_team 2 ''B'' ''y'']"]
  by (simp add: mk_team_def)

text \<open>
  C10: when an identifier is absent from the comparison set, every entity of the previous
  sequence that carries it is in the result, as many times and in the same order as in
  the previous sequence: duplicates of the previous sequence are not collapsed.
\<close>

theorem C10_duplicates_in_previous_kept:
  "k \<notin> ID ` set current \<Longrightarrow>
   filter (\<lambda>t. ID t = k) (findMissingTeams previous current) = filter (\<lambda>t. ID t = k) previous"
proof -
  assume absent: "k \<notin> ID ` set current"
  have "filter (\<lambda>t. ID t = k) (filter (\<lambda>t. ID t \<notin> ID ` set current) previous) =
        filter (\<lambda>t. ID t = k) previous"
    unfolding filter_filter
    by (rule filter_cong) (use absent in auto)
  then show ?thesis
    by (simp only: findMissingTeams_filter)
qed

theorem C10_duplicates_in_previous_kept_witness:
  "2 \<notin> ID ` set [mk_team 1 ''A'' ''x'']
   \<and> filter (\<lambda>t. ID t = 2)
       (findMissingTeams [mk_team 2 ''B'' ''y'', mk_team 1 ''A'' ''x'', mk_team 2 ''B2'' ''w'']
          [mk_team 1 ''A'' ''x''])
     = [mk_team 2 ''B'' ''y'', mk_team 2 ''B2'' ''w'']"
proof -
  have h: "2 \<notin> ID ` set [mk_team 1 ''A'' ''x'']"
    by (simp add: mk_team_def)
  show ?thesis
    using h C10_duplicates_in_previous_kept
      [OF h, of "[mk_team 2 ''B'' ''y'', mk_team 1 ''A'' ''x'', mk_team 2 ''B2'' ''w'']"]
    by (simp add: mk_team_def)
qed

section \<open>Properties of the notification\<close>

lemma append_team_lines_concat:
  "append_team_lines message teams =
     message @ concat (map (\<lambda>team. ''`'' @ Number team @ ''` - `'' @ Organization team @ ''`''
                                    @ [CHR 0x0A]) teams)"
  by (induction teams arbitrary: message) simp_all

lemmas sample_defs =
  sample_world_def sample_decode_def sample_marshal_def snapshot_of_def team_A_def team_B_def
  mk_team_def first_run_def second_run_def env_without_ids_def
  teams_url_def event_url_def snapshot_file_def

lemmas step_defs =
  process_event_def fetchTeams_def loadPreviousTeams_def ReadFile_def saveTeams_def
  save_and_check_def check_missing_def fetchEventName_def sendSlackMessage_def
  emit_def tick_def Let_def

text \<open>
  C7: for an empty list the message is the "no teams are missing" sentence naming the
  event; for a non-empty list it is the header naming the event followed by one line per
  missing team, with the team's number and organization, in the order of the list. This
  message, once encoded, is what \<open>sendSlackMessage\<close> posts to the webhook.
\<close>

theorem C7_message_composition:
  "slack_text eventName [] = ''No teams are missing for event '' @ eventName @ ''.''
   \<and> (missingTeams \<noteq> [] \<longrightarrow>
        slack_text eventName missingTeams =
          ''*Missing teams for* `'' @ eventName @ ''`:'' @ [CHR 0x0A, CHR 0x0A] @
          concat (map (\<lambda>team. ''`'' @ Number team @ ''` - `'' @ Organization team @ ''`''
                               @ [CHR 0x0A]) missingTeams))
   \<and> (marshal_payload w (slack_text eventName missingTeams) = Inr payload \<longrightarrow>
        trace (snd (sendSlackMessage w webhookURL eventName missingTeams st)) =
          trace st @ [Http_Post webhookURL payload])"
proof (intro conjI impI)
  show "slack_text eventName [] = ''No teams are missing for event '' @ eventName @ ''.''"
    by (simp add: slack_text_def)
next
  assume "missingTeams \<noteq> []"
  then show "slack_text eventName missingTeams =
          ''*Missing teams for* `'' @ eventName @ ''`:'' @ [CHR 0x0A, CHR 0x0A] @
          concat (map (\<lambda>team. ''`'' @ Number team @ ''` - `'' @ Organization team @ ''`''
                               @ [CHR 0x0A]) missingTeams)"
    by (simp add: slack_text_def append_team_lines_concat)
next
  assume "marshal_payload w (slack_text eventName missingTeams) = Inr payload"
  then show "trace (snd (sendSlackMessage w webhookURL eventName missingTeams st)) =
          trace st @ [Http_Post webhookURL payload]"
    by (simp add: sendSlackMessage_def emit_def tick_def Let_def split: sum.split)
qed

theorem C7_message_composition_witness:
  "[team_B] \<noteq> []
   \<and> slack_text ''Worlds'' [] = ''No teams are missing for event Worlds.''
   \<and> slack_text ''Worlds'' [team_B] =
       ''*Missing teams for* `Worlds`:'' @ [CHR 0x0A, CHR 0x0A] @
       ''`B` - `Beta Club`'' @ [CHR 0x0A]
   \<and> marshal_payload sample_world (slack_text ''Worlds'' [team_B]) =
       Inr (slack_text ''Worlds'' [team_B])
   \<and> trace (snd (sendSlackMessage sample_world ''hook'' ''Worlds'' [team_B] first_run)) =
       [Http_Post ''hook'' (slack_text ''Worlds'' [team_B])]"
proof -
  have m: "marshal_payload sample_world (slack_text ''Worlds'' [team_B]) =
             Inr (slack_text ''Worlds'' [team_B])"
    by (simp add: sample_world_def)
  have t: "trace first_run = []"
    by (simp add: first_run_def)
  show ?thesis
    using m t
      C7_message_composition [of "''Worlds''" "[team_B]" sample_world
        "slack_text ''Worlds'' [team_B]" "''hook''" first_run]
    by (simp add: team_B_def mk_team_def)
qed

section \<open>Properties of fetchTeams\<close>

text \<open>
  C4, as amended: \<open>fetchTeams\<close> returns an error when the request cannot be built (event
  \<open>e0\<close>), when the transport fails (event \<open>e1\<close>) and when the body of the response does not
  decode (event \<open>e2\<close>). When the body of the response decodes, the decoded snapshot is
  returned, whatever the status code of the response (event \<open>e4\<close>). A snapshot that is
  returned is what the body of some response decoded to (event \<open>e3\<close>). The status code of
  the response is never read: replacing the status code of every response by any \<open>code\<close>
  leaves the result of \<open>fetchTeams\<close> as it was.
\<close>

theorem C4_fetchTeams_errors:
  "(new_request w (teams_url e0) = Some msg0 \<longrightarrow>
      fst (fetchTeams w token e0 st) = Inl (ErrURL msg0))
   \<and> (new_request w (teams_url e1) = None \<and>
      http_get w (clock st) (teams_url e1) token = Inl err1 \<longrightarrow>
      fst (fetchTeams w token e1 st) = Inl err1)
   \<and> (new_request w (teams_url e2) = None \<and>
      http_get w (clock st) (teams_url e2) token = Inr resp2 \<and>
      decode_teams w (Body resp2) = Inl err2 \<longrightarrow>
      fst (fetchTeams w token e2 st) = Inl err2)
   \<and> (new_request w (teams_url e4) = None \<and>
      http_get w (clock st) (teams_url e4) token = Inr resp4 \<and>
      decode_teams w (Body resp4) = Inr snapshot4 \<longrightarrow>
      fst (fetchTeams w token e4 st) = Inr snapshot4)
   \<and> (fst (fetchTeams w token e3 st) = Inr snapshot \<longrightarrow>
      (\<exists>resp. new_request w (teams_url e3) = None \<and>
              http_get w (clock st) (teams_url e3) token = Inr resp \<and>
              decode_teams w (Body resp) = Inr snapshot))
   \<and> fst (fetchTeams
            (w\<lparr>http_get := \<lambda>n url tok. map_sum id (\<lambda>resp. resp\<lparr>StatusCode := code\<rparr>)
                                          (http_get w n url tok)\<rparr>) token e st) =
      fst (fetchTeams w token e st)"
proof (intro conjI impI)
  assume "new_request w (teams_url e0) = Some msg0"
  then show "fst (fetchTeams w token e0 st) = Inl (ErrURL msg0)"
    by (simp add: fetchTeams_def Let_def)
next
  assume "new_request w (teams_url e1) = None \<and>
          http_get w (clock st) (teams_url e1) token = Inl err1"
  then show "fst (fetchTeams w token e1 st) = Inl err1"
    by (simp add: fetchTeams_def Let_def)
next
  assume "new_request w (teams_url e2) = None \<and>
          http_get w (clock st) (teams_url e2) token = Inr resp2 \<and>
          decode_teams w (Body resp2) = Inl err2"
  then show "fst (fetchTeams w token e2 st) = Inl err2"
    by (simp add: fetchTeams_def Let_def)
next
  assume "new_request w (teams_url e4) = None \<and>
          http_get w (clock st) (teams_url e4) token = Inr resp4 \<and>
          decode_teams w (Body resp4) = Inr snapshot4"
  then show "fst (fetchTeams w token e4 st) = Inr snapshot4"
    by (simp add: fetchTeams_def Let_def)
next
  assume "fst (fetchTeams w token e3 st) = Inr snapshot"
  then show "\<exists>resp. new_request w (teams_url e3) = None \<and>
                    http_get w (clock st) (teams_url e3) token = Inr resp \<and>
                    decode_teams w (Body resp) = Inr snapshot"
    by (auto simp: fetchTeams_def Let_def split: sum.splits option.splits)
next
  show "fst (fetchTeams
            (w\<lparr>http_get := \<lambda>n url tok. map_sum id (\<lambda>resp. resp\<lparr>StatusCode := code\<rparr>)
                                          (http_get w n url tok)\<rparr>) token e st) =
        fst (fetchTeams w token e st)"
    by (cases "http_get w (clock st) (teams_url e) token")
       (simp_all add: fetchTeams_def Let_def split: sum.split option.split)
qed

theorem C4_fetchTeams_errors_witness:
  "new_request sample_world (teams_url ''%zz'') = Some ''invalid URL escape''
   \<and> fst (fetchTeams sample_world ''tok'' ''%zz'' first_run) = Inl (ErrURL ''invalid URL escape'')
   \<and> new_request sample_world (teams_url ''123'') = None
   \<and> http_get sample_world (clock first_run) (teams_url ''123'') ''tok'' = Inl (ErrHTTP ''timeout'')
   \<and> fst (fetchTeams sample_world ''tok'' ''123'' first_run) = Inl (ErrHTTP ''timeout'')
   \<and> new_request sample_world (teams_url ''500'') = None
   \<and> http_get sample_world (clock first_run) (teams_url ''500'') ''tok'' =
       Inr \<lparr>StatusCode = 500, Body = ''<html>''\<rparr>
   \<and> decode_teams sample_world (Body \<lparr>StatusCode = 500, Body = ''<html>''\<rparr>) =
       Inl (ErrJSON ''invalid character'')
   \<and> fst (fetchTeams sample_world ''tok'' ''500'' first_run) = Inl (ErrJSON ''invalid character'')
   \<and> new_request sample_world (teams_url ''404'') = None
   \<and> http_get sample_world (clock first_run) (teams_url ''404'') ''tok'' =
       Inr \<lparr>StatusCode = 404, Body = ''{}''\<rparr>
   \<and> decode_teams sample_world (Body \<lparr>StatusCode = 404, Body = ''{}''\<rparr>) =
       Inr \<lparr>Meta = \<lparr>Total = 0\<rparr>, Data = []\<rparr>
   \<and> fst (fetchTeams sample_world ''tok'' ''404'' first_run) =
       Inr \<lparr>Meta = \<lparr>Total = 0\<rparr>, Data = []\<rparr>
   \<and> fst (fetchTeams sample_world ''tok'' ''42'' first_run) = Inr (snapshot_of [team_A])
   \<and> (\<exists>resp. new_request sample_world (teams_url ''42'') = None \<and>
             http_get sample_world (clock first_run) (teams_url ''42'') ''tok'' = Inr resp \<and>
             decode_teams sample_world (Body resp) = Inr (snapshot_of [team_A]))"
proof -
  have h0: "new_request sample_world (teams_url ''%zz'') = Some ''invalid URL escape''"
    by (simp add: sample_defs)
  have h1: "new_request sample_world (teams_url ''123'') = None"
    by (simp add: sample_defs)
  have h1': "http_get sample_world (clock first_run) (teams_url ''123'') ''tok'' =
              Inl (ErrHTTP ''timeout'')"
    by (simp add: sample_defs)
  have h2: "new_request sample_world (teams_url ''500'') = None"
    by (simp add: sample_defs)
  have h2': "http_get sample_world (clock first_run) (teams_url ''500'') ''tok'' =
              Inr \<lparr>StatusCode = 500, Body = ''<html>''\<rparr>"
    by (simp add: sample_defs)
  have h2'': "decode_teams sample_world (Body \<lparr>StatusCode = 500, Body = ''<html>''\<rparr>) =
              Inl (ErrJSON ''invalid character'')"
    by (simp add: sample_defs)
  have h4: "new_request sample_world (teams_url ''404'') = None"
    by (simp add: sample_defs)
  have h4': "http_get sample_world (clock first_run) (teams_url ''404'') ''tok'' =
              Inr \<lparr>StatusCode = 404, Body = ''{}''\<rparr>"
    by (simp add: sample_defs)
  have h4'': "decode_teams sample_world (Body \<lparr>StatusCode = 404, Body = ''{}''\<rparr>) =
              Inr \<lparr>Meta = \<lparr>Total = 0\<rparr>, Data = []\<rparr>"
    by (simp add: sample_defs)
  have h3: "fst (fetchTeams sample_world ''tok'' ''42'' first_run) = Inr (snapshot_of [team_A])"
    by (simp add: sample_defs fetchTeams_def Let_def)
  show ?thesis
    using h0 h1 h1' h2 h2' h2'' h4 h4' h4'' h3
      C4_fetchTeams_errors
        [where w = sample_world and st = first_run and token = "''tok''"
           and ?e0.0 = "''%zz''" and ?msg0.0 = "''invalid URL escape''"
           and ?e1.0 = "''123''" and ?err1.0 = "ErrHTTP ''timeout''"
           and ?e2.0 = "''500''" and ?resp2.0 = "\<lparr>StatusCode = 500, Body = ''<html>''\<rparr>"
           and ?err2.0 = "ErrJSON ''invalid character''"
           and ?e4.0 = "''404''" and ?resp4.0 = "\<lparr>StatusCode = 404, Body = ''{}''\<rparr>"
           and ?snapshot4.0 = "\<lparr>Meta = \<lparr>Total = 0\<rparr>, Data = []\<rparr>"
           and ?e3.0 = "''42''" and snapshot = "snapshot_of [team_A]"]
    by simp
qed

text \<open>
  C4 as stated fails: the roster endpoint answers event \<open>404\<close> with status 404 and a body
  that decodes, and \<open>fetchTeams\<close> returns a snapshot, not an error.
\<close>

theorem C4_non_success_response_counterexample:
  "http_get sample_world (clock first_run) (teams_url ''404'') ''tok'' =
     Inr \<lparr>StatusCode = 404, Body = ''{}''\<rparr>
   \<and> fst (fetchTeams sample_world ''tok'' ''404'' first_run) =
     Inr \<lparr>Meta = \<lparr>Total = 0\<rparr>, Data = []\<rparr>"
  by (simp add: sample_defs fetchTeams_def Let_def)

section \<open>Properties of the orchestration loop\<close>

subsection \<open>The loop runs one full iteration for every event ID\<close>














subsection \<open>An error ends one iteration\<close>






subsection \<open>The first run for an event\<close>

text \<open>
  C6: when the fetch for event \<open>e\<close> succeeds and the snapshot file of \<open>e\<close> does not exist
  (and the file system reports no other failure on the read), loading returns the
  not-exist error, which the loop does not treat as an error: the iteration goes on to
  write the fetched snapshot to the file, and then, if the write succeeds, only prints
  that there is nothing to compare. The snapshot file then holds the fetched snapshot.
  The trace of the iteration holds no request for the event's name and no post to the
  webhook. \<open>bytes\<close> is the encoding of the fetched snapshot.
\<close>

theorem C6_first_run_persists_and_skips_diff:
  "fst (fetchTeams w token e st) = Inr cur \<Longrightarrow>
   files st (snapshot_file e) = None \<Longrightarrow>
   read_error w (Suc (clock st)) (snapshot_file e) = None \<Longrightarrow>
   marshal_teams w cur = Inr bytes \<Longrightarrow>
   fst (loadPreviousTeams w e (tick st)) = Inl ErrNotExist
   \<and> os_IsNotExist ErrNotExist
   \<and> trace (process_event w token url e st) =
       trace st @ [Stdout_Processing e, Http_Get (teams_url e) token,
                   File_Read (snapshot_file e), File_Write (snapshot_file e) bytes]
         @ (case write_error w (Suc (Suc (clock st))) (snapshot_file e) of
              None \<Rightarrow> [Stdout_NoPrevious e]
            | Some msg \<Rightarrow> [Log_SaveError e (ErrIO msg)])
   \<and> (write_error w (Suc (Suc (clock st))) (snapshot_file e) = None \<longrightarrow>
        files (process_event w token url e st) = (files st)(snapshot_file e \<mapsto> bytes))"
  by (auto simp: process_event_def fetchTeams_def loadPreviousTeams_def ReadFile_def
        saveTeams_def save_and_check_def check_missing_def emit_def tick_def Let_def
        split: sum.splits option.splits)

theorem C6_first_run_persists_and_skips_diff_witness:
  "fst (fetchTeams sample_world ''tok'' ''42'' first_run) = Inr (snapshot_of [team_A])
   \<and> files first_run (snapshot_file ''42'') = None
   \<and> read_error sample_world (Suc (clock first_run)) (snapshot_file ''42'') = None
   \<and> marshal_teams sample_world (snapshot_of [team_A]) = Inr ''[A]''
   \<and> write_error sample_world (Suc (Suc (clock first_run))) (snapshot_file ''42'') = None
   \<and> fst (loadPreviousTeams sample_world ''42'' (tick first_run)) = Inl ErrNotExist
   \<and> trace (process_event sample_world ''tok'' ''hook'' ''42'' first_run) =
       [Stdout_Processing ''42'', Http_Get (teams_url ''42'') ''tok'',
        File_Read (snapshot_file ''42''), File_Write (snapshot_file ''42'') ''[A]'',
        Stdout_NoPrevious ''42'']
   \<and> files (process_event sample_world ''tok'' ''hook'' ''42'' first_run) (snapshot_file ''42'') =
       Some ''[A]''"
proof -
  have h1: "fst (fetchTeams sample_world ''tok'' ''42'' first_run) = Inr (snapshot_of [team_A])"
    by (simp add: sample_defs fetchTeams_def Let_def)
  have h2: "files first_run (snapshot_file ''42'') = None"
    by (simp add: first_run_def)
  have h3: "read_error sample_world (Suc (clock first_run)) (snapshot_file ''42'') = None"
    by (simp add: sample_defs)
  have h4: "marshal_teams sample_world (snapshot_of [team_A]) = Inr ''[A]''"
    by (simp add: sample_defs)
  have h5: "write_error sample_world (Suc (Suc (clock first_run))) (snapshot_file ''42'') = None"
    by (simp add: sample_defs)
  have t: "trace first_run = []"
    by (simp add: first_run_def)
  show ?thesis
    using h1 h2 h3 h4 h5 t
      C6_first_run_persists_and_skips_diff [OF h1 h2 h3 h4, of "''hook''"]
    by simp
qed

subsection \<open>The comparison set passed on line 202\<close>

text \<open>
  C1 does not hold of the code. Line 202 passes an empty slice as the comparison set, so
  the diff is the whole previous snapshot whatever was fetched. With the roster
  \<open>[A, B]\<close> saved for event 42 and the roster \<open>[A]\<close> fetched, the diff of line 202 is
  \<open>[A, B]\<close> where comparing with the fetched roster gives \<open>[B]\<close>, and the message posted to
  the webhook lists both teams.
\<close>

theorem C1_line_202_ignores_fetched_snapshot:
  "line_202_missingTeams prevTeams currTeams = Data prevTeams
   \<and> line_202_missingTeams (snapshot_of [team_A, team_B]) (snapshot_of [team_A]) =
       [team_A, team_B]
   \<and> findMissingTeams (Data (snapshot_of [team_A, team_B])) (Data (snapshot_of [team_A])) =
       [team_B]
   \<and> trace (process_event sample_world ''tok'' ''hook'' ''42'' second_run) =
       [Stdout_Processing ''42'', Http_Get (teams_url ''42'') ''tok'',
        File_Read (snapshot_file ''42''), File_Write (snapshot_file ''42'') ''[A]'',
        Http_Get (event_url ''42'') ''tok'',
        Http_Post ''hook'' (slack_text ''Worlds'' [team_A, team_B])]"
proof (intro conjI)
  show "line_202_missingTeams prevTeams currTeams = Data prevTeams"
    by (simp add: line_202_missingTeams_def findMissingTeams_filter)
  show "line_202_missingTeams (snapshot_of [team_A, team_B]) (snapshot_of [team_A]) =
          [team_A, team_B]"
    by (simp add: line_202_missingTeams_def findMissingTeams_filter snapshot_of_def)
  show "findMissingTeams (Data (snapshot_of [team_A, team_B])) (Data (snapshot_of [team_A])) =
          [team_B]"
    by (simp add: findMissingTeams_filter snapshot_of_def team_A_def team_B_def mk_team_def)
  show "trace (process_event sample_world ''tok'' ''hook'' ''42'' second_run) =
       [Stdout_Processing ''42'', Http_Get (teams_url ''42'') ''tok'',
        File_Read (snapshot_file ''42''), File_Write (snapshot_file ''42'') ''[A]'',
        Http_Get (event_url ''42'') ''tok'',
        Http_Post ''hook'' (slack_text ''Worlds'' [team_A, team_B])]"
    by (simp add: sample_defs step_defs line_202_missingTeams_def findMissingTeams_filter)
qed

subsection \<open>An empty list of event IDs\<close>

lemma process_event_begins:
  "\<exists>rest. trace (process_event w token url e st) =
            trace st @ Stdout_Processing e #
              (case new_request w (teams_url e) of
                 Some msg \<Rightarrow> [Log_FetchError e (ErrURL msg)]
               | None \<Rightarrow> Http_Get (teams_url e) token # rest)"
  by (cases "new_request w (teams_url e)")
     (auto simp: step_defs split: sum.splits option.splits)

text \<open>
  C3 does not hold of the code. With \<open>EVENT_IDS\<close> unset or empty, \<open>strings.Split\<close> returns
  the one-element list holding the empty string, and the loop runs once, for the empty
  event ID: it prints the progress line for it and calls \<open>fetchTeams\<close> for it, which sends
  the request for its roster unless \<open>http.NewRequest\<close> rejects the address (then that
  error is logged). In the sample world the roster of the empty event ID is requested,
  and the file \<open>_teams.json\<close> is read and written.
\<close>

theorem C3_empty_EVENT_IDS_runs_one_iteration:
  "env_without_ids ''EVENT_IDS'' = []
   \<and> strings_Split (env_without_ids ''EVENT_IDS'') (CHR '','') = [[]]
   \<and> main w env_without_ids st = Finished (process_event w ''tok'' ''hook'' [] st)
   \<and> (\<exists>rest. trace (process_event w ''tok'' ''hook'' [] st) =
               trace st @ Stdout_Processing [] #
                 (case new_request w (teams_url []) of
                    Some msg \<Rightarrow> [Log_FetchError [] (ErrURL msg)]
                  | None \<Rightarrow> Http_Get (teams_url []) ''tok'' # rest))
   \<and> (\<exists>st'. main sample_world env_without_ids first_run = Finished st' \<and>
             trace st' =
               [Stdout_Processing [], Http_Get (teams_url []) ''tok'',
                File_Read (snapshot_file []), File_Write (snapshot_file []) ''[A]'',
                Stdout_NoPrevious []])"
proof (intro conjI)
  show "env_without_ids ''EVENT_IDS'' = []"
    by (simp add: env_without_ids_def)
  show "strings_Split (env_without_ids ''EVENT_IDS'') (CHR '','') = [[]]"
    by (simp add: env_without_ids_def)
  show "main w env_without_ids st = Finished (process_event w ''tok'' ''hook'' [] st)"
    by (simp add: main_def env_without_ids_def)
  show "\<exists>rest. trace (process_event w ''tok'' ''hook'' [] st) =
               trace st @ Stdout_Processing [] #
                 (case new_request w (teams_url []) of
                    Some msg \<Rightarrow> [Log_FetchError [] (ErrURL msg)]
                  | None \<Rightarrow> Http_Get (teams_url []) ''tok'' # rest)"
    by (rule process_event_begins)
  show "\<exists>st'. main sample_world env_without_ids first_run = Finished st' \<and>
             trace st' =
               [Stdout_Processing [], Http_Get (teams_url []) ''tok'',
                File_Read (snapshot_file []), File_Write (snapshot_file []) ''[A]'',
                Stdout_NoPrevious []]"
    by (simp add: main_def sample_defs step_defs)
qed

end
